theory Spec2Isabelle
  imports Main "HOL-Library.Sublist"
begin

section \<open>Python strings and exceptions\<close>

text \<open>
  A Python \<open>str\<close> is modelled as a \<open>string\<close> whose characters are code points below 256.
  The string methods used by the sources (\<open>lower\<close>, \<open>strip\<close>, \<open>split\<close>, \<open>splitlines\<close>,
  \<open>startswith\<close>, \<open>endswith\<close>, the slice \<open>[1:-1]\<close>) are written out on that range.
  Exceptions are values of the type \<open>error\<close>; a function that may raise returns
  \<open>error + 'a\<close> with \<open>Inl\<close> for the exception.
\<close>

datatype error =
    KeyError string
  | AttributeError string
  | TypeError string
  | ConfigurationError string

definition bindE :: "error + 'a \<Rightarrow> ('a \<Rightarrow> error + 'b) \<Rightarrow> error + 'b" where
  "bindE m f = (case m of Inl e \<Rightarrow> Inl e | Inr x \<Rightarrow> f x)"



definition py_lower_char :: "char \<Rightarrow> char" where
  "py_lower_char c = (let n = (of_char c :: nat)
                      in if (65 \<le> n \<and> n \<le> 90) \<or> (192 \<le> n \<and> n \<le> 222 \<and> n \<noteq> 215)
                         then char_of (n + 32) else c)"

definition py_lower :: "string \<Rightarrow> string" where
  "py_lower s = map py_lower_char s"





text \<open>
  \<open>s.splitlines()\<close>: the line boundaries are \<open>\n\<close>, \<open>\r\<close>, \<open>\r\n\<close>, \<open>\v\<close>, \<open>\f\<close>,
  \<open>\x1c\<close>, \<open>\x1d\<close>, \<open>\x1e\<close> and \<open>\x85\<close>; no empty last line after a final boundary.
\<close>

definition is_linebreak :: "char \<Rightarrow> bool" where
  "is_linebreak c = (let n = (of_char c :: nat)
                     in (10 \<le> n \<and> n \<le> 13) \<or> (28 \<le> n \<and> n \<le> 30) \<or> n = 133)"

function splitlines_from :: "string \<Rightarrow> string \<Rightarrow> string list" where
  "splitlines_from cur [] = (if cur = [] then [] else [cur])"
| "splitlines_from cur (c # cs) =
     (if c = CHR 0x0D
      then cur # splitlines_from []
                   (case cs of [] \<Rightarrow> [] | d # ds \<Rightarrow> if d = CHR 0x0A then ds else cs)
      else if is_linebreak c then cur # splitlines_from [] cs
      else splitlines_from (cur @ [c]) cs)"
  by pat_completeness auto
termination
  by (relation "measure (\<lambda>(cur, s). length s)") (auto split: list.splits)

definition py_splitlines :: "string \<Rightarrow> string list" where
  "py_splitlines s = splitlines_from [] s"

text \<open>\<open>sep.join(xs)\<close>.\<close>

fun py_join :: "string \<Rightarrow> string list \<Rightarrow> string" where
  "py_join sep [] = []"
| "py_join sep [x] = x"
| "py_join sep (x # y # ys) = x @ sep @ py_join sep (y # ys)"

section \<open>core.getFromNames\<close>











section \<open>The code buffer\<close>

text \<open>
  Modelled from the spec: the code buffer is an external collaborator with the operations
  \<open>writeIndented(text)\<close>, \<open>writeIndentedLines(text)\<close> and \<open>setIndentLevel(delta, relative)\<close>,
  and a fragment is an ordered sequence of text lines with an associated indentation
  level. The buffer holds its indentation level and the sequence of its writes, each with
  the level in force when it was made; its text (\<open>getvalue\<close>) is every write behind one
  indent of four spaces per level. \<open>writeIndented\<close> writes the text as it is,
  \<open>writeIndentedLines\<close> writes every line of the text followed by a newline.
\<close>

record buff =
  indentLevel :: int
  written :: "(int \<times> string) list"

definition oneIndent :: string where
  "oneIndent = ''    ''"

definition getvalue :: "buff \<Rightarrow> string" where
  "getvalue b = concat (map (\<lambda>(l, t). concat (replicate (nat l) oneIndent) @ t) (written b))"

definition writeIndented :: "string \<Rightarrow> buff \<Rightarrow> buff" where
  "writeIndented text b = b\<lparr>written := written b @ [(indentLevel b, text)]\<rparr>"

definition writeIndentedLines :: "string \<Rightarrow> buff \<Rightarrow> buff" where
  "writeIndentedLines text b =
     b\<lparr>written := written b
          @ map (\<lambda>line. (indentLevel b, line @ ''\<newline>'')) (py_splitlines text)\<rparr>"

definition setIndentLevel :: "int \<Rightarrow> bool \<Rightarrow> buff \<Rightarrow> buff" where
  "setIndentLevel newLevel relative b =
     (if relative then b\<lparr>indentLevel := indentLevel b + newLevel\<rparr>
      else b\<lparr>indentLevel := newLevel\<rparr>)"

section \<open>Parameters, the component and its collaborators\<close>

text \<open>
  The values a parameter holds: a string, a boolean, a list of strings or \<open>None\<close>.
  \<open>truthy\<close> is Python's truth value, \<open>py_str\<close> is \<open>str()\<close> (the \<open>repr\<close> of a list element
  is the element between single quotes, which is exact for elements without quotes,
  backslashes or control characters).
\<close>

datatype pval = PStr string | PBool bool | PList "string list" | PNone

fun truthy :: "pval \<Rightarrow> bool" where
  "truthy (PStr s) = (s \<noteq> [])"
| "truthy (PBool b) = b"
| "truthy (PList xs) = (xs \<noteq> [])"
| "truthy PNone = False"

fun py_str :: "pval \<Rightarrow> string" where
  "py_str (PStr s) = s"
| "py_str (PBool b) = (if b then ''True'' else ''False'')"
| "py_str (PList xs) = ''['' @ py_join '', '' (map (\<lambda>x. [CHR 0x27] @ x @ [CHR 0x27]) xs) @ '']''"
| "py_str PNone = ''None''"

text \<open>\<open>v == s\<close> and \<open>v in [s1, ...]\<close> for a value and string literals.\<close>

definition val_eq :: "pval \<Rightarrow> string \<Rightarrow> bool" where
  "val_eq v s = (v = PStr s)"

definition val_in :: "pval \<Rightarrow> string list \<Rightarrow> bool" where
  "val_in v ss = (case v of PStr s \<Rightarrow> s \<in> set ss | _ \<Rightarrow> False)"

text \<open>\<open>v.lower()\<close>: only a string has the method.\<close>

definition lower_val :: "pval \<Rightarrow> error + string" where
  "lower_val v = (case v of PStr s \<Rightarrow> Inr (py_lower s)
                  | _ \<Rightarrow> Inl (AttributeError ''lower''))"

text \<open>
  A \<open>Param\<close> as the component builds it: the value, \<open>valType\<close> and \<open>allowedVals\<close>
  (\<open>None\<close> when the call gives none). The class \<open>Param\<close> is not among the sources, so
  its constructor is an argument of the component's constructor, and its \<open>__str__\<close> and
  \<open>__bool__\<close> belong to the collaborators below.
\<close>

record Param =
  val :: pval
  valType :: string
  allowedVals :: "string list option"

type_synonym params_dict = "string \<rightharpoonup> Param"

type_synonym Param_constructor = "pval \<Rightarrow> string \<Rightarrow> string list option \<Rightarrow> error + Param"

text \<open>The constructor that stores its arguments.\<close>

definition Param_stored :: Param_constructor where
  "Param_stored v t a = Inr \<lparr>val = v, valType = t, allowedVals = a\<rparr>"

text \<open>
  Modelled from the spec: the class \<open>Param\<close> is missing from the sources. The spec gives a
  parameter the invariant that its value belongs to the allowed-values set when one is
  declared, and makes a value outside that set a configuration error raised when the
  value is assigned.
\<close>

definition Param_validated :: Param_constructor where
  "Param_validated v t a =
     (case a of
        None \<Rightarrow> Inr \<lparr>val = v, valType = t, allowedVals = a\<rparr>
      | Some allowed \<Rightarrow>
          if val_in v allowed then Inr \<lparr>val = v, valType = t, allowedVals = a\<rparr>
          else Inl (ConfigurationError (py_str v)))"

text \<open>\<open>self.params[key]\<close>.\<close>

definition lookup :: "params_dict \<Rightarrow> string \<Rightarrow> error + Param" where
  "lookup ps key = (case ps key of None \<Rightarrow> Inl (KeyError key) | Some p \<Rightarrow> Inr p)"

text \<open>
  The enclosing loop or handler (\<open>.type\<close>, \<open>.params\<close>, and \<open>.name\<close> of the experiment
  handler) and the experiment (\<open>exp.flow._loopList\<close>, \<open>exp._expHandler\<close>).
\<close>

record handler =
  handler_type :: string
  handler_params :: params_dict
  handler_name :: string

record Experiment =
  loopList :: "handler list"
  expHandler :: handler

text \<open>
  The component object: the fields the sources read or write. \<open>clockStr\<close> and
  \<open>clickableParamsList\<close> (\<open>self._clickableParamsList\<close>) are \<open>None\<close> while the object has
  no such attribute.
\<close>

record component =
  params :: params_dict
  order :: "string list"
  type :: string
  url :: string
  exp :: Experiment
  clockStr :: "string option"
  clickableParamsList :: "string list option"

text \<open>
  The collaborators that are not among the sources: \<open>Param.__str__\<close> and
  \<open>Param.__bool__\<close>, the base class's \<open>writeStartTestCode\<close>, \<open>writeStopTestCode\<close> (they
  return how far they indented) and \<open>writeRoutineEndCode\<close>, and
  \<open>_writeClickableObjectsCode\<close>. The methods read the configuration and write to the buffer.
\<close>

record host =
  str_Param :: "Param \<Rightarrow> string"
  bool_Param :: "Param \<Rightarrow> bool"
  writeStartTestCode :: "params_dict \<Rightarrow> buff \<Rightarrow> error + int \<times> buff"
  writeStopTestCode :: "params_dict \<Rightarrow> buff \<Rightarrow> error + int \<times> buff"
  base_writeRoutineEndCode :: "params_dict \<Rightarrow> buff \<Rightarrow> error + buff"
  writeClickableObjectsCode :: "params_dict \<Rightarrow> buff \<Rightarrow> error + buff"

section \<open>ButtonboxComponent.__init__\<close>

text \<open>Lines 53--56: a boolean \<open>forceEndRoutineOnPress\<close> becomes one of the choices.\<close>

definition normalise_forceEnd :: "pval \<Rightarrow> pval" where
  "normalise_forceEnd forceEndRoutineOnPress =
     (if forceEndRoutineOnPress = PBool True then PStr ''any click''
      else if forceEndRoutineOnPress = PBool False then PStr ''never''
      else forceEndRoutineOnPress)"

text \<open>
  The constructor. \<open>base\<close> is the object as \<open>super().__init__\<close> leaves it (from \<open>exp\<close>,
  \<open>parentName\<close>, \<open>name\<close> and the start and stop arguments); the remaining arguments are
  \<open>save\<close>, \<open>forceEndRoutineOnPress\<close>, \<open>lights\<close>, \<open>clickable\<close> and \<open>timeRelativeTo\<close>. The
  body stores \<open>True\<close> for \<open>lights\<close> and the empty string for \<open>clickable\<close>, and makes no use
  of \<open>save\<close>.
\<close>

definition ButtonboxComponent_init ::
  "Param_constructor \<Rightarrow> component \<Rightarrow> pval \<Rightarrow> pval \<Rightarrow> pval \<Rightarrow> pval \<Rightarrow> pval
   \<Rightarrow> error + component" where
  "ButtonboxComponent_init mkParam base save forceEndRoutineOnPress lights clickable timeRelativeTo =
     (let self = base\<lparr>type := ''Buttonbox'', url := [],
                      order := order base
                        @ [''forceEndRoutineOnPress'', ''lights'', ''clickable'', ''timeRelativeTo'']\<rparr>;
          forceEnd = normalise_forceEnd forceEndRoutineOnPress
      in bindE (mkParam forceEnd ''str''
                  (Some [''never'', ''any click'', ''valid click'', ''correct click''])) (\<lambda>p1.
         bindE (mkParam (PBool True) ''bool'' None) (\<lambda>p2.
         bindE (mkParam timeRelativeTo ''str''
                  (Some [''buttonbox onset'', ''experiment'', ''routine''])) (\<lambda>p3.
         bindE (mkParam (PStr []) ''list'' None) (\<lambda>p4.
         Inr (self\<lparr>params := (params self)
                  (''forceEndRoutineOnPress'' \<mapsto> p1, ''lights'' \<mapsto> p2,
                   ''timeRelativeTo'' \<mapsto> p3, ''clickable'' \<mapsto> p4)\<rparr>))))))"

section \<open>Init and RoutineStart\<close>

text \<open>
  The body of \<open>writeInitCode\<close>: the adjacent literals have no newline between them, so the
  text is one line.
\<close>

definition writeInitCode_body :: "host \<Rightarrow> component \<Rightarrow> buff \<Rightarrow> error + buff" where
  "writeInitCode_body H self b =
     bindE (lookup (params self) ''name'') (\<lambda>name.
       let nm = str_Param H name;
           code = ''#initialize buttonbox''
                  @ ''from psychopy_pixx.devices import Responsepixx''
                  @ nm @ '' = ResponsePixx(pixxdevice, buttons = buttons, events = ['down'], lights = lights''
                  @ nm @ ''.buttonboxClock = core.Clock()\<newline>''
       in Inr (writeIndentedLines code b))"

text \<open>
  \<open>writeInitCode\<close> is declared a property: \<open>component.writeInitCode\<close> runs the getter with
  \<open>self\<close> alone, which raises \<open>TypeError\<close> for the missing argument \<open>buff\<close> before the body
  runs.
\<close>

definition writeInitCode :: "host \<Rightarrow> component \<Rightarrow> buff \<Rightarrow> error + buff" where
  "writeInitCode H self b = Inl (TypeError ''writeInitCode() missing 1 required positional argument'')"

definition writeRoutineStartCode :: "host \<Rightarrow> component \<Rightarrow> buff \<Rightarrow> error + buff" where
  "writeRoutineStartCode H self b =
     bindE (lookup (params self) ''timeRelativeTo'') (\<lambda>timeRelativeTo.
     bindE (lower_val (val timeRelativeTo)) (\<lambda>lowered.
     bindE (lookup (params self) ''name'') (\<lambda>name.
       let nm = str_Param H name;
           code = ''# starting the buttonbox and setup a python list for storing the button presses of ''
                  @ nm @ ''\<newline>''
                  @ nm @ ''.start()\<newline>''
                  @ ''(name)sResp = []\<newline>'';
           code = (if lowered = ''routine''
                   then code @ nm @ ''.buttonboxClock.reset()\<newline>'' else code)
       in Inr (writeIndentedLines code b))))"

section \<open>FrameUpdate\<close>

text \<open>
  Lines 115--149 of \<open>writeFrameCode\<close>: the clock, the heading comment, the start test
  with the code written inside it, and the stop test. The result is the object (with
  \<open>clockStr\<close> set when the time base is a known one), \<open>forceEnd\<close> and the buffer.
\<close>

definition writeFrameCode_tests ::
  "host \<Rightarrow> component \<Rightarrow> buff \<Rightarrow> error + component \<times> pval \<times> buff" where
  "writeFrameCode_tests H self b =
     bindE (lookup (params self) ''forceEndRoutineOnPress'') (\<lambda>p.
       let forceEnd = val p in
     bindE (lookup (params self) ''timeRelativeTo'') (\<lambda>timeRelativeTo.
     bindE (lower_val (val timeRelativeTo)) (\<lambda>timeRelative.
     bindE (if timeRelative = ''experiment''
            then Inr (self\<lparr>clockStr := Some ''globalClock''\<rparr>)
            else if timeRelative \<in> set [''routine'', ''buttonbox onset'']
            then bindE (lookup (params self) ''name'') (\<lambda>name.
                   Inr (self\<lparr>clockStr := Some (py_str (val name) @ ''.buttonboxClock'')\<rparr>))
            else Inr self) (\<lambda>self.
     bindE (lookup (params self) ''name'') (\<lambda>name.
       let nm = str_Param H name;
           b = writeIndented (''# *'' @ nm @ ''* updates\<newline>'') b in
     bindE (writeStartTestCode H (params self) b) (\<lambda>(indented, b).
     bindE (if indented \<noteq> 0
            then bindE (lookup (params self) ''newClicksOnly'') (\<lambda>newClicksOnly.
                   let code = [];
                       code = (if timeRelative = ''buttonbox onset''
                               then code @ nm @ ''.buttonboxClock.reset()\<newline>'' else code);
                       code = (if bool_Param H newClicksOnly
                               then code @ ''prevButtonState = '' @ nm @ ''.getKeys()''
                                    @ ''  # if button is down already this ISN'T a new click\<newline>''
                               else code @ ''prevButtonState = []''
                                    @ ''  # if now button is down we will treat as 'new' click\<newline>'')
                   in Inr (writeIndentedLines code b))
            else Inr b) (\<lambda>b.
       let b = setIndentLevel (- indented) True b in
     bindE (writeStopTestCode H (params self) b) (\<lambda>(indented, b).
       let b = setIndentLevel (- indented) True b in
     Inr (self, forceEnd, b)))))))))"

text \<open>Lines 161--174: the nested function \<open>_buttonPressCode\<close>.\<close>

definition buttonPressCode :: "string \<Rightarrow> buff \<Rightarrow> int \<Rightarrow> buff \<times> int" where
  "buttonPressCode nm b dedent =
     (let code = ''buttons = '' @ nm @ ''.getKeys()\<newline>''
                 @ ''if buttons != prevButtonState:  # button state changed?'';
          b = writeIndentedLines code b;
          b = setIndentLevel 1 True b;
          dedent = dedent + 1;
          b = writeIndented ''prevButtonState = buttons\<newline>'' b;
          code = ''if buttons > 0:  # state changed to a new click\<newline>''
                 @ ''lastResp = buttons[-1]'';
          b = writeIndentedLines code b;
          b = setIndentLevel 1 True b;
          dedent = dedent + 1
      in (b, dedent))"

text \<open>Lines 191--199: the data-append lines.\<close>

definition mouseCode :: "string \<Rightarrow> string \<Rightarrow> string" where
  "mouseCode nm clk =
     ''x, y = '' @ nm @ ''.getPos()\<newline>''
     @ nm @ ''.x.append(x)\<newline>''
     @ nm @ ''.y.append(y)\<newline>''
     @ ''buttons = '' @ nm @ ''.getPressed()\<newline>''
     @ nm @ ''.leftButton.append(buttons[0])\<newline>''
     @ nm @ ''.midButton.append(buttons[1])\<newline>''
     @ nm @ ''.rightButton.append(buttons[2])\<newline>''
     @ nm @ ''.time.append('' @ clk @ ''.getTime())\<newline>''"

text \<open>
  Lines 208--217 and 223--232, the same text in both places: the data-append lines on
  every click, or inside a valid-click test when there are clickable objects.
\<close>

definition saveOnClick :: "component \<Rightarrow> pval \<Rightarrow> string \<Rightarrow> buff \<Rightarrow> error + buff" where
  "saveOnClick self save code b =
     (if val_in save [''on click''] then Inr (writeIndentedLines code b)
      else bindE (lookup (params self) ''clickable'') (\<lambda>clickable.
        if truthy (val clickable) \<and> val_in save [''on valid click'']
        then let b = writeIndentedLines ''if gotValidClick:\<newline>'' b;
                 b = setIndentLevel 1 True b;
                 b = writeIndentedLines code b;
                 b = setIndentLevel (- 1) True b
             in Inr b
        else Inr b))"

text \<open>Lines 155--253: the code written while the component has started.\<close>

definition writeFrameCode_updates ::
  "host \<Rightarrow> component \<Rightarrow> pval \<Rightarrow> buff \<Rightarrow> error + buff" where
  "writeFrameCode_updates H self forceEnd b =
     bindE (lookup (params self) ''name'') (\<lambda>name.
       let nm = str_Param H name;
           b = writeIndented (''if '' @ nm @ ''.status == STARTED:  ''
                              @ ''# only update if started and not finished!\<newline>'') b;
           b = setIndentLevel 1 True b;
           dedentAtEnd = 1 in
     bindE (lookup (params self) ''saveMouseState'') (\<lambda>saveMouseState.
       let save = val saveMouseState in
       if val_in save [''never'', ''final''] \<and> \<not> val_eq forceEnd ''never''
       then
         (let (b, dedentAtEnd) = buttonPressCode nm b dedentAtEnd in
          if val_eq forceEnd ''valid click''
          then let b = writeIndentedLines
                         (''if gotValidClick:  \<newline>''
                          @ ''    continueRoutine = False  # end routine on response\<newline>'') b
               in Inr (setIndentLevel (- dedentAtEnd) True b)
          else let b = writeIndented ''continueRoutine = False  # end routine on response'' b
               in Inr (setIndentLevel (- dedentAtEnd) True b))
       else if \<not> val_eq save ''never''
       then
         (case clockStr self of
            None \<Rightarrow> Inl (AttributeError ''clockStr'')
          | Some clk \<Rightarrow>
            let code = mouseCode nm clk;
                b = (if val_in save [''every frame''] then writeIndentedLines code b else b) in
            bindE (if val_eq forceEnd ''never'' \<and> val_in save [''on click'', ''on valid click'']
                   then let (b, dedentAtEnd) = buttonPressCode nm b dedentAtEnd in
                        bindE (saveOnClick self save code b) (\<lambda>b. Inr (b, dedentAtEnd))
                   else if \<not> val_eq forceEnd ''never''
                   then let (b, dedentAtEnd) = buttonPressCode nm b dedentAtEnd in
                        bindE (saveOnClick self save code b) (\<lambda>b.
                        bindE (lookup (params self) ''clickable'') (\<lambda>clickable.
                          let b = (if truthy (val clickable) \<and> val_eq forceEnd ''valid click''
                                   then writeIndentedLines
                                          (''if gotValidClick:\<newline>''
                                           @ ''    continueRoutine = False  # end routine on response\<newline>'') b
                                   else b);
                              b = (if val_eq forceEnd ''any click''
                                   then writeIndentedLines
                                          (''\<newline>''
                                           @ ''continueRoutine = False  # end routine on response\<newline>'') b
                                   else b)
                          in Inr (b, dedentAtEnd)))
                   else Inr (b, dedentAtEnd)) (\<lambda>(b, dedentAtEnd).
            Inr (setIndentLevel (- dedentAtEnd) True b)))
       else Inr b))"

definition writeFrameCode :: "host \<Rightarrow> component \<Rightarrow> buff \<Rightarrow> error + component \<times> buff" where
  "writeFrameCode H self b =
     bindE (writeFrameCode_tests H self b) (\<lambda>(self, forceEnd, b).
     bindE (writeFrameCode_updates H self forceEnd b) (\<lambda>b. Inr (self, b)))"

section \<open>RoutineEnd\<close>

text \<open>Lines 265--268: the last loop of the flow, or the experiment handler.\<close>

definition currLoop_of :: "Experiment \<Rightarrow> handler" where
  "currLoop_of e = (if length (loopList e) \<noteq> 0 then last (loopList e) else expHandler e)"

text \<open>Lines 310--319 and 329--330: the loops over \<open>self._clickableParamsList\<close>.\<close>

fun write_clicked_params :: "string \<Rightarrow> string \<Rightarrow> string list \<Rightarrow> buff \<Rightarrow> buff" where
  "write_clicked_params loopName nm [] b = b"
| "write_clicked_params loopName nm (paramName # rest) b =
     write_clicked_params loopName nm rest
       (writeIndentedLines
          (''if len('' @ nm @ ''.clicked_'' @ paramName @ ''):\<newline>''
           @ ''    '' @ loopName @ ''.addData(''
           @ [CHR 0x27] @ nm @ ''.clicked_'' @ paramName @ [CHR 0x27] @ '', ''
           @ nm @ ''.clicked_'' @ paramName @ ''[0])\<newline>'') b)"

text \<open>Lines 332--343: one \<open>addData\<close> line per property (both branches write the same).\<close>

fun write_properties :: "string \<Rightarrow> string \<Rightarrow> string list \<Rightarrow> buff \<Rightarrow> buff" where
  "write_properties loopName nm [] b = b"
| "write_properties loopName nm (property # rest) b =
     write_properties loopName nm rest
       (writeIndented
          (loopName @ ''.addData('' @ [CHR 0x27] @ nm @ ''.'' @ property @ [CHR 0x27] @ '', ''
           @ nm @ ''.'' @ property @ '')\<newline>'') b)"

text \<open>Lines 280--319: the branch for \<open>store == 'final'\<close>.\<close>

definition writeRoutineEnd_final ::
  "host \<Rightarrow> component \<Rightarrow> Param \<Rightarrow> handler \<Rightarrow> buff \<Rightarrow> error + buff" where
  "writeRoutineEnd_final H self name currLoop b =
     (let nm = str_Param H name;
          b = writeIndentedLines
                (''x, y = '' @ nm @ ''.getPos()\<newline>''
                 @ ''buttons = '' @ nm @ ''.getPressed()\<newline>'') b in
      bindE (lookup (params self) ''clickable'') (\<lambda>clickable.
      bindE (if truthy (val clickable)
             then let b = writeIndented ''if sum(buttons):\<newline>'' b;
                      b = setIndentLevel 1 True b in
                  bindE (writeClickableObjectsCode H (params self) b) (\<lambda>b.
                  Inr (setIndentLevel (- 1) True b))
             else Inr b) (\<lambda>b.
      if handler_type currLoop \<noteq> ''StairHandler''
      then
        bindE (lookup (params self) ''storeCorrect'') (\<lambda>storeCorrect.
        bindE (lookup (handler_params currLoop) ''name'') (\<lambda>loopNameP.
          let loopName = str_Param H loopNameP;
              q = [CHR 0x27];
              code = loopName @ ''.addData('' @ q @ nm @ ''.x'' @ q @ '', x)\<newline>''
                     @ loopName @ ''.addData('' @ q @ nm @ ''.y'' @ q @ '', y)\<newline>''
                     @ loopName @ ''.addData('' @ q @ nm @ ''.leftButton'' @ q @ '', buttons[0])\<newline>''
                     @ loopName @ ''.addData('' @ q @ nm @ ''.midButton'' @ q @ '', buttons[1])\<newline>''
                     @ loopName @ ''.addData('' @ q @ nm @ ''.rightButton'' @ q @ '', buttons[2])\<newline>'';
              code = (if bool_Param H storeCorrect
                      then code @ loopName @ ''.addData('' @ q @ nm @ ''.corr'' @ q @ '', ''
                           @ nm @ ''.corr)\<newline>''
                      else code);
              b = writeIndentedLines code b
          in if truthy (val clickable)
             then (case clickableParamsList self of
                     None \<Rightarrow> Inl (AttributeError ''_clickableParamsList'')
                   | Some ps \<Rightarrow> Inr (write_clicked_params loopName nm ps b))
             else Inr b))
      else Inr b)))"

text \<open>Lines 321--343: the branch for any other \<open>store\<close> than \<open>'never'\<close>.\<close>

definition writeRoutineEnd_other ::
  "host \<Rightarrow> component \<Rightarrow> Param \<Rightarrow> handler \<Rightarrow> buff \<Rightarrow> error + buff" where
  "writeRoutineEnd_other H self name currLoop b =
     (let nm = str_Param H name;
          mouseDataProps = [''x'', ''y'', ''leftButton'', ''midButton'', ''rightButton'', ''time''] in
      bindE (lookup (params self) ''storeCorrect'') (\<lambda>storeCorrect.
        let mouseDataProps = (if bool_Param H storeCorrect
                              then mouseDataProps @ [''corr''] else mouseDataProps) in
      bindE (lookup (params self) ''clickable'') (\<lambda>clickable.
      bindE (if truthy (val clickable)
             then (case clickableParamsList self of
                     None \<Rightarrow> Inl (AttributeError ''_clickableParamsList'')
                   | Some ps \<Rightarrow> Inr (mouseDataProps @ map (\<lambda>paramName. ''clicked_'' @ paramName) ps))
             else Inr mouseDataProps) (\<lambda>mouseDataProps.
      if mouseDataProps = [] then Inr b
      else bindE (lookup (handler_params currLoop) ''name'') (\<lambda>loopNameP.
             Inr (write_properties (str_Param H loopNameP) nm mouseDataProps b))))))"

definition writeRoutineEndCode :: "host \<Rightarrow> component \<Rightarrow> buff \<Rightarrow> error + buff" where
  "writeRoutineEndCode H self b =
     bindE (lookup (params self) ''name'') (\<lambda>name.
     bindE (lookup (params self) ''saveMouseState'') (\<lambda>saveMouseState.
       let store = val saveMouseState in
       if val_eq store ''nothing'' then Inr b
       else
     bindE (lookup (params self) ''forceEndRoutineOnPress'') (\<lambda>p.
       let forceEnd = val p;
           currLoop = currLoop_of (exp self) in
     bindE (if handler_type currLoop = ''StairHandler''
            then Inr (''# NB PsychoPy doesn't handle a 'correct answer' for ''
                      @ ''mouse events so doesn't know how to handle mouse with ''
                      @ ''StairHandler\<newline>'')
            else bindE (lookup (handler_params currLoop) ''name'') (\<lambda>loopNameP.
                   Inr (''# store data for '' @ str_Param H loopNameP
                        @ '' ('' @ handler_type currLoop @ '')\<newline>''))) (\<lambda>code.
       let b = writeIndentedLines code b in
     bindE (if val_eq store ''final'' then writeRoutineEnd_final H self name currLoop b
            else if \<not> val_eq store ''never'' then writeRoutineEnd_other H self name currLoop b
            else Inr b) (\<lambda>b.
     bindE (base_writeRoutineEndCode H (params self) b) (\<lambda>b.
     bindE (lookup (handler_params currLoop) ''name'') (\<lambda>loopNameP.
       if val_eq (val loopNameP) (handler_name (expHandler (exp self)))
       then Inr (writeIndented (handler_name (expHandler (exp self)) @ ''.nextEntry()\<newline>'') b)
       else Inr b)))))))"

section \<open>Reading the generated code\<close>

text \<open>
  The routine-termination statement and the button-state-changed guard, recognised in a
  write by the start of its text.
\<close>

definition is_termination :: "string \<Rightarrow> bool" where
  "is_termination t = prefix ''continueRoutine = False'' t"

definition is_state_guard :: "string \<Rightarrow> bool" where
  "is_state_guard t = prefix ''if buttons != prevButtonState:'' t"

text \<open>The writes of \<open>b'\<close> that come after those of \<open>b\<close>.\<close>

definition emitted :: "buff \<Rightarrow> buff \<Rightarrow> (int \<times> string) list" where
  "emitted b b' = drop (length (written b)) (written b')"

text \<open>A text without a line boundary.\<close>

definition no_linebreak :: "string \<Rightarrow> bool" where
  "no_linebreak s = list_all (\<lambda>c. \<not> is_linebreak c) s"

text \<open>
  A Python identifier over ASCII, as a component name is: letters, digits and the
  underscore, not starting with a digit.
\<close>

definition ident_char :: "char \<Rightarrow> bool" where
  "ident_char c = (let n = (of_char c :: nat)
                   in (48 \<le> n \<and> n \<le> 57) \<or> (65 \<le> n \<and> n \<le> 90) \<or> n = 95 \<or> (97 \<le> n \<and> n \<le> 122))"

definition is_identifier :: "string \<Rightarrow> bool" where
  "is_identifier s = (s \<noteq> [] \<and> list_all ident_char s
                   \<and> \<not> (48 \<le> (of_char (hd s) :: nat) \<and> (of_char (hd s) :: nat) \<le> 57))"

text \<open>
  The block structure of generated code. A write stands at the column of its indent plus
  its own leading spaces; \<open>guards_of\<close> gives every statement together with the \<open>if\<close>
  headers that enclose it by indentation (a header is left by the first later statement
  that stands at its column or to the left of it).
\<close>

definition column :: "int \<times> string \<Rightarrow> int" where
  "column w = 4 * max (fst w) 0 + int (length (takeWhile (\<lambda>c. c = CHR '' '') (snd w)))"

definition stmt :: "int \<times> string \<Rightarrow> string" where
  "stmt w = dropWhile (\<lambda>c. c = CHR '' '') (snd w)"

definition is_header :: "string \<Rightarrow> bool" where
  "is_header s = prefix ''if '' s"

fun guards_of :: "(int \<times> string) list \<Rightarrow> (int \<times> string) list \<Rightarrow> (string list \<times> string) list" where
  "guards_of stack [] = []"
| "guards_of stack (w # ws) =
     (let stack = filter (\<lambda>h. fst h < column w) stack
      in (map snd stack, stmt w)
         # guards_of (if is_header (stmt w) then stack @ [(column w, stmt w)] else stack) ws)"

text \<open>
  What \<open>_buttonPressCode\<close> writes from level \<open>l\<close>, and the data-append lines at level \<open>l\<close>,
  as writes.
\<close>

definition pressWrites :: "int \<Rightarrow> string \<Rightarrow> (int \<times> string) list" where
  "pressWrites l nm =
     [(l, ''buttons = '' @ nm @ ''.getKeys()\<newline>''),
      (l, ''if buttons != prevButtonState:  # button state changed?\<newline>''),
      (l + 1, ''prevButtonState = buttons\<newline>''),
      (l + 1, ''if buttons > 0:  # state changed to a new click\<newline>''),
      (l + 1, ''lastResp = buttons[-1]\<newline>'')]"

definition dataWrites :: "int \<Rightarrow> string \<Rightarrow> string \<Rightarrow> (int \<times> string) list" where
  "dataWrites l nm clk =
     [(l, ''x, y = '' @ nm @ ''.getPos()\<newline>''),
      (l, nm @ ''.x.append(x)\<newline>''),
      (l, nm @ ''.y.append(y)\<newline>''),
      (l, ''buttons = '' @ nm @ ''.getPressed()\<newline>''),
      (l, nm @ ''.leftButton.append(buttons[0])\<newline>''),
      (l, nm @ ''.midButton.append(buttons[1])\<newline>''),
      (l, nm @ ''.rightButton.append(buttons[2])\<newline>''),
      (l, nm @ ''.time.append('' @ clk @ ''.getTime())\<newline>'')]"

section \<open>An example host, experiment and configuration\<close>

text \<open>
  A host to evaluate the generator with: a parameter prints as its value and is true as
  its value is; the start and stop tests write a guard, indent by one, write a line inside
  it and return 1; the base class's end-of-routine code writes one line; the code for
  clickable objects writes one line.
\<close>

definition example_startTest :: "params_dict \<Rightarrow> buff \<Rightarrow> error + int \<times> buff" where
  "example_startTest ps b =
     Inr (1, writeIndented ''status = STARTED\<newline>''
               (setIndentLevel 1 True (writeIndented ''if tThisFlip >= 0.0:\<newline>'' b)))"

definition example_stopTest :: "params_dict \<Rightarrow> buff \<Rightarrow> error + int \<times> buff" where
  "example_stopTest ps b =
     Inr (1, writeIndented ''status = FINISHED\<newline>''
               (setIndentLevel 1 True (writeIndented ''if tThisFlip > 1.0:\<newline>'' b)))"

definition example_host :: host where
  "example_host =
     \<lparr>str_Param = (\<lambda>p. py_str (val p)),
      bool_Param = (\<lambda>p. truthy (val p)),
      writeStartTestCode = example_startTest,
      writeStopTestCode = example_stopTest,
      base_writeRoutineEndCode = (\<lambda>ps b. Inr (writeIndented ''# store start/stop\<newline>'' b)),
      writeClickableObjectsCode = (\<lambda>ps b. Inr (writeIndented ''# check clicked objects\<newline>'' b))\<rparr>"

definition example_Param :: "pval \<Rightarrow> Param" where
  "example_Param v = \<lparr>val = v, valType = ''str'', allowedVals = None\<rparr>"

definition example_exp :: Experiment where
  "example_exp =
     \<lparr>loopList = [\<lparr>handler_type = ''TrialHandler'',
                    handler_params = [''name'' \<mapsto> example_Param (PStr ''trials'')],
                    handler_name = ''trials''\<rparr>],
      expHandler = \<lparr>handler_type = ''ExperimentHandler'',
                    handler_params = [''name'' \<mapsto> example_Param (PStr ''thisExp'')],
                    handler_name = ''thisExp''\<rparr>\<rparr>"

text \<open>An experiment whose only loop has no \<open>name\<close> parameter.\<close>

definition nameless_exp :: Experiment where
  "nameless_exp =
     \<lparr>loopList = [\<lparr>handler_type = ''TrialHandler'', handler_params = Map.empty,
                    handler_name = ''trials''\<rparr>],
      expHandler = \<lparr>handler_type = ''ExperimentHandler'',
                    handler_params = [''name'' \<mapsto> example_Param (PStr ''thisExp'')],
                    handler_name = ''thisExp''\<rparr>\<rparr>"

text \<open>
  An experiment whose only loop is a \<open>StairHandler\<close>, one whose \<open>StairHandler\<close> loop has no
  \<open>name\<close> parameter, and one without loops (the enclosing handler is the experiment
  handler).
\<close>

definition stair_exp :: Experiment where
  "stair_exp =
     \<lparr>loopList = [\<lparr>handler_type = ''StairHandler'',
                    handler_params = [''name'' \<mapsto> example_Param (PStr ''stairs'')],
                    handler_name = ''stairs''\<rparr>],
      expHandler = \<lparr>handler_type = ''ExperimentHandler'',
                    handler_params = [''name'' \<mapsto> example_Param (PStr ''thisExp'')],
                    handler_name = ''thisExp''\<rparr>\<rparr>"

definition nameless_stair_exp :: Experiment where
  "nameless_stair_exp =
     \<lparr>loopList = [\<lparr>handler_type = ''StairHandler'', handler_params = Map.empty,
                    handler_name = ''stairs''\<rparr>],
      expHandler = \<lparr>handler_type = ''ExperimentHandler'',
                    handler_params = [''name'' \<mapsto> example_Param (PStr ''thisExp'')],
                    handler_name = ''thisExp''\<rparr>\<rparr>"

definition flat_exp :: Experiment where
  "flat_exp =
     \<lparr>loopList = [],
      expHandler = \<lparr>handler_type = ''ExperimentHandler'',
                    handler_params = [''name'' \<mapsto> example_Param (PStr ''thisExp'')],
                    handler_name = ''thisExp''\<rparr>\<rparr>"

text \<open>
  A configuration with every key the generator reads, for given \<open>forceEndRoutineOnPress\<close>,
  \<open>saveMouseState\<close> and \<open>clickable\<close>.
\<close>

definition example_params :: "pval \<Rightarrow> pval \<Rightarrow> pval \<Rightarrow> params_dict" where
  "example_params forceEnd save clickable =
     [''name'' \<mapsto> example_Param (PStr ''buttonbox''),
      ''forceEndRoutineOnPress'' \<mapsto> example_Param forceEnd,
      ''lights'' \<mapsto> example_Param (PBool True),
      ''timeRelativeTo'' \<mapsto> example_Param (PStr ''buttonbox onset''),
      ''clickable'' \<mapsto> example_Param clickable,
      ''saveMouseState'' \<mapsto> example_Param save,
      ''newClicksOnly'' \<mapsto> example_Param (PBool True),
      ''storeCorrect'' \<mapsto> example_Param (PBool True)]"

definition example_component :: "pval \<Rightarrow> pval \<Rightarrow> pval \<Rightarrow> Experiment \<Rightarrow> component" where
  "example_component forceEnd save clickable e =
     \<lparr>params = example_params forceEnd save clickable, order = [], type = ''Buttonbox'',
      url = [], exp = e, clockStr = None, clickableParamsList = Some [''name'']\<rparr>"

definition empty_buff :: buff where
  "empty_buff = \<lparr>indentLevel = 0, written = []\<rparr>"

text \<open>
  The buffer after the first part of \<open>writeFrameCode\<close> (the heading comment and the start
  and stop tests) on the example configurations.
\<close>

definition example_after_tests :: buff where
  "example_after_tests =
     \<lparr>indentLevel = 0,
      written =
        [(0, ''# *buttonbox* updates\<newline>''),
         (0, ''if tThisFlip >= 0.0:\<newline>''),
         (1, ''status = STARTED\<newline>''),
         (1, ''buttonbox.buttonboxClock.reset()\<newline>''),
         (1, ''prevButtonState = buttonbox.getKeys()  # if button is down already this ISN'T a new click\<newline>''),
         (0, ''if tThisFlip > 1.0:\<newline>''),
         (1, ''status = FINISHED\<newline>'')]\<rparr>"

text \<open>
  The object as a base constructor leaves it that files the arguments it is called with:
  \<open>name\<close> and the start and stop settings, with the defaults of the signature.
\<close>

definition example_base :: component where
  "example_base =
     \<lparr>params = [''name'' \<mapsto> example_Param (PStr ''buttonbox''),
                ''startType'' \<mapsto> example_Param (PStr ''time (s)''),
                ''startVal'' \<mapsto> example_Param (PStr ''0.0''),
                ''stopType'' \<mapsto> example_Param (PStr ''duration (s)''),
                ''stopVal'' \<mapsto> example_Param (PStr ''1.0''),
                ''startEstim'' \<mapsto> example_Param (PStr []),
                ''durationEstim'' \<mapsto> example_Param (PStr [])],
      order = [''name'', ''startType'', ''startVal'', ''stopType'', ''stopVal'',
               ''startEstim'', ''durationEstim''],
      type = [], url = [], exp = example_exp, clockStr = None, clickableParamsList = None\<rparr>"

section \<open>Auxiliary facts\<close>

lemmas buff_defs = writeIndented_def writeIndentedLines_def setIndentLevel_def py_splitlines_def

lemmas val_defs = val_eq_def val_in_def lower_val_def lookup_def bindE_def

lemmas char_defs = is_linebreak_def py_lower_def py_lower_char_def

lemmas example_defs = example_host_def example_component_def example_params_def example_Param_def
  example_exp_def empty_buff_def example_startTest_def example_stopTest_def

lemma py_lower_Routine: "py_lower ''Routine'' = ''routine''"
  by code_simp

lemma py_lower_onset: "py_lower ''buttonbox onset'' = ''buttonbox onset''"
  by code_simp

lemma bindE_Inl [simp]: "bindE (Inl e) f = Inl e"
  by (simp add: bindE_def)

lemma bindE_Inr [simp]: "bindE (Inr x) f = f x"
  by (simp add: bindE_def)

lemma bindE_eq_Inr: "bindE m f = Inr y \<longleftrightarrow> (\<exists>x. m = Inr x \<and> f x = Inr y)"
  by (cases m) simp_all

lemma map_sum_bindE:
  "map_sum id g (bindE m f) = bindE m (\<lambda>x. map_sum id g (f x))"
  by (cases m) simp_all

lemma splitlines_from_nobreak:
  "no_linebreak a \<Longrightarrow> splitlines_from cur (a @ rest) = splitlines_from (cur @ a) rest"
proof (induction a arbitrary: cur)
  case Nil
  then show ?case by simp
next
  case (Cons c a)
  then have "c \<noteq> CHR 0x0D" and "\<not> is_linebreak c" and "no_linebreak a"
    by (auto simp: no_linebreak_def is_linebreak_def Let_def)
  with Cons.IH [of "cur @ [c]"] show ?case by simp
qed

lemma ident_char_not_linebreak: "ident_char c \<Longrightarrow> \<not> is_linebreak c"
  by (auto simp: ident_char_def is_linebreak_def Let_def)

lemma is_identifier_no_linebreak: "is_identifier s \<Longrightarrow> no_linebreak s"
  by (auto simp: is_identifier_def no_linebreak_def list_all_iff ident_char_not_linebreak)

lemma no_linebreak_append [simp]: "no_linebreak (a @ b) \<longleftrightarrow> no_linebreak a \<and> no_linebreak b"
  by (simp add: no_linebreak_def)

lemma splitlines_mouseCode:
  assumes "no_linebreak nm" and "no_linebreak clk"
  shows "splitlines_from [] (mouseCode nm clk) =
          [''x, y = '' @ nm @ ''.getPos()'',
           nm @ ''.x.append(x)'',
           nm @ ''.y.append(y)'',
           ''buttons = '' @ nm @ ''.getPressed()'',
           nm @ ''.leftButton.append(buttons[0])'',
           nm @ ''.midButton.append(buttons[1])'',
           nm @ ''.rightButton.append(buttons[2])'',
           nm @ ''.time.append('' @ clk @ ''.getTime())'']"
  using assms
  by (simp add: mouseCode_def splitlines_from_nobreak is_linebreak_def)

lemma buttonPressCode_writes:
  assumes "no_linebreak nm"
  shows "buttonPressCode nm b d
         = (b\<lparr>written := written b @ pressWrites (indentLevel b) nm, indentLevel := indentLevel b + 2\<rparr>, d + 2)"
  using assms
  by (simp add: buttonPressCode_def pressWrites_def buff_defs splitlines_from_nobreak is_linebreak_def Let_def)

lemma prefix_through_name:
  assumes "sp \<in> set P" and "sp \<notin> set nm" and "c \<notin> set P"
  shows "\<not> prefix P (nm @ c # rest)"
proof
  assume p: "prefix P (nm @ c # rest)"
  show False
  proof (cases "length P \<le> length nm")
    case True
    with p have "prefix P nm" by (metis prefix_length_prefix prefixI append.assoc prefix_order.order_refl prefix_append)
    then have "set P \<subseteq> set nm" by (auto simp: prefix_def)
    with assms show False by auto
  next
    case False
    then have "length nm < length P" by simp
    with p have "P ! length nm = (nm @ c # rest) ! length nm"
      by (metis prefix_def nth_append)
    then have "P ! length nm = c" by simp
    with \<open>length nm < length P\<close> assms(3) show False by (metis nth_mem)
  qed
qed

lemma ident_char_facts: "ident_char c \<Longrightarrow> c \<noteq> CHR '' ''"
  by (auto simp: ident_char_def Let_def)

lemma is_identifier_no_space: "is_identifier s \<Longrightarrow> CHR '' '' \<notin> set s"
  by (auto simp: is_identifier_def list_all_iff dest: ident_char_facts)

lemma is_identifier_takeWhile:
  assumes "is_identifier nm"
  shows "takeWhile (\<lambda>c. c = CHR '' '') (nm @ rest) = []" and "dropWhile (\<lambda>c. c = CHR '' '') (nm @ rest) = nm @ rest"
  using assms by (cases nm; auto simp: is_identifier_def dest: ident_char_facts)+

lemma not_prefix_name:
  assumes "is_identifier nm"
  shows "\<not> prefix ''if '' (nm @ CHR ''.'' # rest)"
    and "\<not> prefix ''continueRoutine = False'' (nm @ CHR ''.'' # rest)"
    and "\<not> prefix ''if buttons != prevButtonState:'' (nm @ CHR ''.'' # rest)"
    and "\<not> prefix ''buttons != prevButtonState:'' (nm @ CHR ''.'' # rest)"
proof -
  have sp: "CHR '' '' \<notin> set nm" by (rule is_identifier_no_space [OF assms])
  show "\<not> prefix ''if '' (nm @ CHR ''.'' # rest)"
    by (rule prefix_through_name [where sp = "CHR '' ''"]) (simp_all add: sp)
  show "\<not> prefix ''continueRoutine = False'' (nm @ CHR ''.'' # rest)"
    by (rule prefix_through_name [where sp = "CHR '' ''"]) (simp_all add: sp)
  show "\<not> prefix ''if buttons != prevButtonState:'' (nm @ CHR ''.'' # rest)"
    by (rule prefix_through_name [where sp = "CHR '' ''"]) (simp_all add: sp)
  show "\<not> prefix ''buttons != prevButtonState:'' (nm @ CHR ''.'' # rest)"
    by (rule prefix_through_name [where sp = "CHR '' ''"]) (simp_all add: sp)
qed

text \<open>What the first part of \<open>writeFrameCode\<close> gives on the example configurations.\<close>

lemma example_tests:
  "writeFrameCode_tests example_host (example_component fe sv cl e) empty_buff
   = Inr (example_component fe sv cl e\<lparr>clockStr := Some ''buttonbox.buttonboxClock''\<rparr>, fe,
          example_after_tests)"
  by (simp add: writeFrameCode_tests_def example_after_tests_def buff_defs val_defs char_defs
        example_defs)

text \<open>
  When the time base is a known one, the first part of \<open>writeFrameCode\<close> returns the object
  with \<open>clockStr\<close> set from the configuration, and \<open>forceEnd\<close>.
\<close>

lemma tests_result:
  assumes "writeFrameCode_tests H self b = Inr (s1, f, b1)"
    and "params self ''forceEndRoutineOnPress'' = Some p"
    and "params self ''timeRelativeTo'' = Some t" and "val t = PStr tr"
    and "py_lower tr \<in> set [''experiment'', ''routine'', ''buttonbox onset'']"
    and "params self ''name'' = Some n"
  shows "s1 = self\<lparr>clockStr := Some (if py_lower tr = ''experiment'' then ''globalClock''
                                      else py_str (val n) @ ''.buttonboxClock'')\<rparr>
         \<and> f = val p"
  using assms
  by (auto simp: writeFrameCode_tests_def lookup_def lower_val_def Let_def bindE_eq_Inr
           split: prod.splits if_splits)

text \<open>
  The two parts of \<open>writeFrameCode\<close> read the object through its configuration and
  \<open>clockStr\<close> only.
\<close>

lemma updates_cong:
  assumes "params s1 = params s2" and "clockStr s1 = clockStr s2"
  shows "writeFrameCode_updates H s1 f b = writeFrameCode_updates H s2 f b"
  unfolding writeFrameCode_updates_def saveOnClick_def assms ..

lemma tests_cong:
  assumes "params c1 = params c2"
    and "params c1 ''timeRelativeTo'' = Some t" and "val t = PStr tr"
    and "py_lower tr \<in> set [''experiment'', ''routine'', ''buttonbox onset'']"
  shows "map_sum id (\<lambda>(s, f, b). (params s, clockStr s, f, b)) (writeFrameCode_tests H c1 b)
       = map_sum id (\<lambda>(s, f, b). (params s, clockStr s, f, b)) (writeFrameCode_tests H c2 b)"
proof -
  from assms have t2: "params c2 ''timeRelativeTo'' = Some t" by simp
  from assms(4) have v: "py_lower tr \<noteq> ''experiment'' \<Longrightarrow>
      py_lower tr \<in> set [''routine'', ''buttonbox onset'']" by auto
  show ?thesis
  proof (cases "params c2 ''forceEndRoutineOnPress''")
    case None
    then show ?thesis by (simp add: writeFrameCode_tests_def lookup_def assms(1))
  next
    case fe: (Some p)
    show ?thesis
    proof (cases "params c2 ''name''")
      case None
      then show ?thesis
        using v
        by (simp add: writeFrameCode_tests_def lookup_def lower_val_def assms(1,3) t2 fe Let_def)
    next
      case (Some n)
      then show ?thesis
        using v
        by (simp add: writeFrameCode_tests_def lookup_def lower_val_def assms(1,3) t2 fe Let_def
              map_sum_bindE case_prod_beta cong del: if_weak_cong)
    qed
  qed
qed

lemma det_frame:
  assumes "params c1 = params c2"
    and "params c1 ''timeRelativeTo'' = Some t" and "val t = PStr tr"
    and "py_lower tr \<in> set [''experiment'', ''routine'', ''buttonbox onset'']"
  shows "map_sum id snd (writeFrameCode H c1 b) = map_sum id snd (writeFrameCode H c2 b)"
proof -
  let ?g = "\<lambda>(s, f, b). (params s, clockStr s, f, b)"
  have eq: "map_sum id ?g (writeFrameCode_tests H c1 b) = map_sum id ?g (writeFrameCode_tests H c2 b)"
    by (rule tests_cong [OF assms])
  show ?thesis
  proof (cases "writeFrameCode_tests H c1 b")
    case (Inl e)
    with eq have "writeFrameCode_tests H c2 b = Inl e"
      by (cases "writeFrameCode_tests H c2 b") simp_all
    with Inl show ?thesis by (simp add: writeFrameCode_def)
  next
    case (Inr r)
    obtain s1 f b1 where r: "r = (s1, f, b1)" by (cases r)
    from eq Inr obtain r2 where 2: "writeFrameCode_tests H c2 b = Inr r2" and g: "?g r2 = ?g r"
      by (cases "writeFrameCode_tests H c2 b") simp_all
    obtain s2 f2 b2 where r2: "r2 = (s2, f2, b2)" by (cases r2)
    from g r r2 have p: "params s1 = params s2" and c: "clockStr s1 = clockStr s2"
      and f: "f2 = f" and b: "b2 = b1" by simp_all
    have u: "writeFrameCode_updates H s1 f b1 = writeFrameCode_updates H s2 f b1"
      by (rule updates_cong [OF p c])
    show ?thesis
      unfolding writeFrameCode_def Inr 2 r r2 f b
      by (cases "writeFrameCode_updates H s2 f b1") (simp_all add: u)
  qed
qed

lemma det_body:
  assumes "params c1 = params c2"
  shows "writeInitCode_body H c1 b = writeInitCode_body H c2 b"
  unfolding writeInitCode_body_def assms ..

lemma det_start:
  assumes "params c1 = params c2"
  shows "writeRoutineStartCode H c1 b = writeRoutineStartCode H c2 b"
  unfolding writeRoutineStartCode_def assms ..

lemma det_end:
  assumes "params c1 = params c2" and "exp c1 = exp c2"
    and "clickableParamsList c1 = clickableParamsList c2"
  shows "writeRoutineEndCode H c1 b = writeRoutineEndCode H c2 b"
  unfolding writeRoutineEndCode_def writeRoutineEnd_final_def writeRoutineEnd_other_def assms ..

section \<open>FrameUpdate: the indentation level\<close>

text \<open>
  The writes keep the indentation level; \<open>setIndentLevel\<close> with \<open>relative\<close> adds to it.
\<close>

lemma indentLevel_writeIndented: "indentLevel (writeIndented t b) = indentLevel b"
  by (simp add: writeIndented_def)

lemma indentLevel_writeIndentedLines: "indentLevel (writeIndentedLines t b) = indentLevel b"
  by (simp add: writeIndentedLines_def)

lemma indentLevel_setIndentLevel:
  "indentLevel (setIndentLevel n True b) = indentLevel b + n"
  by (simp add: setIndentLevel_def)

lemmas indent_simps = indentLevel_writeIndented indentLevel_writeIndentedLines indentLevel_setIndentLevel

lemma buttonPressCode_indent:
  "indentLevel (fst (buttonPressCode nm b d)) = indentLevel b + 2"
  "snd (buttonPressCode nm b d) = d + 2"
  by (simp_all add: buttonPressCode_def Let_def indent_simps)

lemma saveOnClick_indent:
  assumes "saveOnClick self save code b = Inr b'"
  shows "indentLevel b' = indentLevel b"
proof (cases "val_in save [''on click'']")
  case True
  with assms show ?thesis by (auto simp: saveOnClick_def indent_simps)
next
  case False
  with assms obtain cl where "params self ''clickable'' = Some cl"
    by (cases "params self ''clickable''") (simp_all add: saveOnClick_def lookup_def)
  with assms False show ?thesis
    by (cases "truthy (val cl) \<and> val_in save [''on valid click'']")
       (auto simp: saveOnClick_def lookup_def Let_def indent_simps)
qed

text \<open>
  The second part of \<open>writeFrameCode\<close> (from the \<open>STARTED\<close> test on) returns at the level it
  was entered at, except with \<open>saveMouseState = 'never'\<close> and \<open>forceEnd = 'never'\<close>, where it
  returns one level above.
\<close>

lemma updates_indent:
  assumes r: "writeFrameCode_updates H self f b = Inr b'"
    and sv: "params self ''saveMouseState'' = Some sv"
  shows "indentLevel b' = indentLevel b
           + (if val sv = PStr ''never'' \<and> f = PStr ''never'' then 1 else 0)"
proof -
  obtain n where n: "params self ''name'' = Some n"
    using r by (cases "params self ''name''") (simp_all add: writeFrameCode_updates_def lookup_def)
  note unf = writeFrameCode_updates_def lookup_def n sv Let_def case_prod_beta val_eq_def
    buttonPressCode_indent indent_simps bindE_eq_Inr
  show ?thesis
  proof (cases "f = PStr ''never''")
    case never: True
    show ?thesis
    proof (cases "val sv = PStr ''never''")
      case True
      with never r show ?thesis by (auto simp: unf)
    next
      case notnever: False
      with never r obtain clk where clk: "clockStr self = Some clk"
        by (cases "clockStr self") (simp_all add: unf)
      show ?thesis
      proof (cases "val_in (val sv) [''on click'', ''on valid click'']")
        case True
        with never notnever clk r show ?thesis
          by (auto simp: unf dest!: saveOnClick_indent)
      next
        case False
        with never notnever clk r show ?thesis
          by (auto simp: unf)
      qed
    qed
  next
    case f: False
    show ?thesis
    proof (cases "val_in (val sv) [''never'', ''final'']")
      case True
      with f r show ?thesis
        by (cases "f = PStr ''valid click''") (auto simp: unf)
    next
      case False
      then have notnever: "val sv \<noteq> PStr ''never''" by (auto simp: val_in_def)
      with False f r obtain clk where clk: "clockStr self = Some clk"
        by (cases "clockStr self") (simp_all add: unf)
      from False notnever f clk r show ?thesis
        by (auto simp: unf dest!: saveOnClick_indent)
    qed
  qed
qed

text \<open>
  Claim C1 says that \<open>writeFrameCode\<close> leaves the indentation level as it found it for every
  configuration. With \<open>forceEndRoutineOnPress = 'never'\<close> and \<open>saveMouseState = 'never'\<close>
  neither branch after the \<open>STARTED\<close> test is taken, and the only dedent of that test
  stands inside the second branch: on the example configuration the level ends one
  above the level at entry.
\<close>

theorem writeFrameCode_never_never_indent:
  "(case writeFrameCode example_host (example_component (PStr ''never'') (PStr ''never'') (PList [''red'',''blue'']) example_exp) empty_buff
    of Inl e \<Rightarrow> False | Inr (c, b) \<Rightarrow> indentLevel b = indentLevel empty_buff + 1)"
  unfolding writeFrameCode_def example_tests example_after_tests_def
  by (simp add: writeFrameCode_updates_def buff_defs val_defs char_defs example_defs)

section \<open>RoutineEnd: the early return\<close>

text \<open>
  Claim C2 says that with \<open>saveMouseState = 'never'\<close> RoutineEnd writes nothing and returns
  before it consults the enclosing loop. The early return tests for \<open>'nothing'\<close>: with
  \<open>'never'\<close> the loop is looked up, the comment naming it is written and the base class's
  code follows; with a loop that has no \<open>name\<close> parameter the lookup raises.
\<close>

theorem writeRoutineEndCode_never_counterexample:
  "writeRoutineEndCode example_host
     (example_component (PStr ''any click'') (PStr ''never'') (PList [''red'', ''blue'']) example_exp)
     empty_buff
   = Inr \<lparr>indentLevel = 0,
          written = [(0, ''# store data for trials (TrialHandler)\<newline>''),
                     (0, ''# store start/stop\<newline>'')]\<rparr>
   \<and> writeRoutineEndCode example_host
     (example_component (PStr ''any click'') (PStr ''never'') (PList [''red'', ''blue'']) nameless_exp)
     empty_buff
   = Inl (KeyError ''name'')"
  by (simp add: writeRoutineEndCode_def currLoop_of_def nameless_exp_def buff_defs val_defs char_defs example_defs)

text \<open>
  Claim C2, amended. Let the configuration hold the keys \<open>name\<close>, \<open>saveMouseState\<close> and
  \<open>forceEndRoutineOnPress\<close>. With \<open>saveMouseState = 'nothing'\<close> RoutineEnd writes nothing
  and returns the buffer as it is, whatever the experiment and its loops are. With
  \<open>'never'\<close> it writes none of its own data lines, but it consults the enclosing loop.
  For a loop that is no \<open>StairHandler\<close>: without a \<open>name\<close> parameter of the loop it raises
  \<open>KeyError\<close> before any write; otherwise it writes the one comment line that names the
  loop, hands over to the base class's end-of-routine code, and writes the \<open>nextEntry\<close>
  call when the loop's name is the experiment handler's. For a \<open>StairHandler\<close>: it writes
  the one fixed comment line about \<open>StairHandler\<close> (which names no loop), hands over to the
  base class's code, and then reads the loop's \<open>name\<close> parameter: without it, it raises
  \<open>KeyError\<close> after those writes; with it, it writes the \<open>nextEntry\<close> call when that name is
  the experiment handler's.
\<close>

theorem writeRoutineEndCode_nothing_never:
  assumes "params self ''name'' = Some n" and "params self ''saveMouseState'' = Some sv"
  shows "(val sv = PStr ''nothing'' \<longrightarrow> writeRoutineEndCode H self b = Inr b)
       \<and> (val sv = PStr ''never'' \<longrightarrow>
            params self ''forceEndRoutineOnPress'' = Some p \<longrightarrow>
            (handler_type (currLoop_of (exp self)) \<noteq> ''StairHandler'' \<longrightarrow>
              (handler_params (currLoop_of (exp self)) ''name'' = None \<longrightarrow>
                 writeRoutineEndCode H self b = Inl (KeyError ''name''))
              \<and> (handler_params (currLoop_of (exp self)) ''name'' = Some ln \<longrightarrow>
                 writeRoutineEndCode H self b =
                   bindE (base_writeRoutineEndCode H (params self)
                            (writeIndentedLines
                               (''# store data for '' @ str_Param H ln @ '' (''
                                @ handler_type (currLoop_of (exp self)) @ '')\<newline>'') b))
                     (\<lambda>b. if val ln = PStr (handler_name (expHandler (exp self)))
                          then Inr (writeIndented
                                      (handler_name (expHandler (exp self)) @ ''.nextEntry()\<newline>'') b)
                          else Inr b)))
            \<and> (handler_type (currLoop_of (exp self)) = ''StairHandler'' \<longrightarrow>
              (handler_params (currLoop_of (exp self)) ''name'' = None \<longrightarrow>
                 writeRoutineEndCode H self b =
                   bindE (base_writeRoutineEndCode H (params self)
                            (writeIndentedLines
                               (''# NB PsychoPy doesn't handle a 'correct answer' for ''
                                @ ''mouse events so doesn't know how to handle mouse with ''
                                @ ''StairHandler\<newline>'') b))
                     (\<lambda>b. Inl (KeyError ''name'')))
              \<and> (handler_params (currLoop_of (exp self)) ''name'' = Some ln \<longrightarrow>
                 writeRoutineEndCode H self b =
                   bindE (base_writeRoutineEndCode H (params self)
                            (writeIndentedLines
                               (''# NB PsychoPy doesn't handle a 'correct answer' for ''
                                @ ''mouse events so doesn't know how to handle mouse with ''
                                @ ''StairHandler\<newline>'') b))
                     (\<lambda>b. if val ln = PStr (handler_name (expHandler (exp self)))
                          then Inr (writeIndented
                                      (handler_name (expHandler (exp self)) @ ''.nextEntry()\<newline>'') b)
                          else Inr b))))"
  using assms
  by (simp add: writeRoutineEndCode_def lookup_def val_eq_def Let_def)

theorem writeRoutineEndCode_nothing_never_witness:
  "writeRoutineEndCode example_host
     (example_component (PStr ''any click'') (PStr ''nothing'') (PList [''red'', ''blue'']) nameless_exp)
     empty_buff
   = Inr empty_buff
   \<and> writeRoutineEndCode example_host
     (example_component (PStr ''any click'') (PStr ''never'') (PList [''red'', ''blue'']) nameless_exp)
     empty_buff
   = Inl (KeyError ''name'')
   \<and> writeRoutineEndCode example_host
     (example_component (PStr ''any click'') (PStr ''never'') (PList [''red'', ''blue'']) example_exp)
     empty_buff
   = Inr \<lparr>indentLevel = 0,
          written = [(0, ''# store data for trials (TrialHandler)\<newline>''),
                     (0, ''# store start/stop\<newline>'')]\<rparr>
   \<and> writeRoutineEndCode example_host
     (example_component (PStr ''any click'') (PStr ''never'') (PList [''red'', ''blue'']) flat_exp)
     empty_buff
   = Inr \<lparr>indentLevel = 0,
          written = [(0, ''# store data for thisExp (ExperimentHandler)\<newline>''),
                     (0, ''# store start/stop\<newline>''),
                     (0, ''thisExp.nextEntry()\<newline>'')]\<rparr>
   \<and> writeRoutineEndCode example_host
     (example_component (PStr ''any click'') (PStr ''never'') (PList [''red'', ''blue'']) stair_exp)
     empty_buff
   = Inr \<lparr>indentLevel = 0,
          written = [(0, ''# NB PsychoPy doesn't handle a 'correct answer' for mouse events so doesn't know how to handle mouse with StairHandler\<newline>''),
                     (0, ''# store start/stop\<newline>'')]\<rparr>
   \<and> writeRoutineEndCode example_host
     (example_component (PStr ''any click'') (PStr ''never'') (PList [''red'', ''blue''])
        nameless_stair_exp)
     empty_buff
   = Inl (KeyError ''name'')"
  using writeRoutineEndCode_nothing_never
          [of "example_component (PStr ''any click'') (PStr ''nothing'') (PList [''red'', ''blue'']) nameless_exp"
              "example_Param (PStr ''buttonbox'')" "example_Param (PStr ''nothing'')"
              example_host empty_buff "example_Param (PStr ''any click'')"
              "example_Param (PStr ''trials'')"]
        writeRoutineEndCode_nothing_never
          [of "example_component (PStr ''any click'') (PStr ''never'') (PList [''red'', ''blue'']) nameless_exp"
              "example_Param (PStr ''buttonbox'')" "example_Param (PStr ''never'')"
              example_host empty_buff "example_Param (PStr ''any click'')"
              "example_Param (PStr ''trials'')"]
        writeRoutineEndCode_nothing_never
          [of "example_component (PStr ''any click'') (PStr ''never'') (PList [''red'', ''blue'']) example_exp"
              "example_Param (PStr ''buttonbox'')" "example_Param (PStr ''never'')"
              example_host empty_buff "example_Param (PStr ''any click'')"
              "example_Param (PStr ''trials'')"]
        writeRoutineEndCode_nothing_never
          [of "example_component (PStr ''any click'') (PStr ''never'') (PList [''red'', ''blue'']) flat_exp"
              "example_Param (PStr ''buttonbox'')" "example_Param (PStr ''never'')"
              example_host empty_buff "example_Param (PStr ''any click'')"
              "example_Param (PStr ''thisExp'')"]
        writeRoutineEndCode_nothing_never
          [of "example_component (PStr ''any click'') (PStr ''never'') (PList [''red'', ''blue'']) stair_exp"
              "example_Param (PStr ''buttonbox'')" "example_Param (PStr ''never'')"
              example_host empty_buff "example_Param (PStr ''any click'')"
              "example_Param (PStr ''stairs'')"]
        writeRoutineEndCode_nothing_never
          [of "example_component (PStr ''any click'') (PStr ''never'') (PList [''red'', ''blue''])
                 nameless_stair_exp"
              "example_Param (PStr ''buttonbox'')" "example_Param (PStr ''never'')"
              example_host empty_buff "example_Param (PStr ''any click'')"
              "example_Param (PStr ''stairs'')"]
  by (simp add: currLoop_of_def nameless_exp_def stair_exp_def nameless_stair_exp_def flat_exp_def
        buff_defs char_defs example_defs)

section \<open>FrameUpdate: ending the routine on a correct click\<close>

text \<open>
  Claim C3 says that for \<open>forceEndRoutineOnPress = 'correct click'\<close>,
  \<open>saveMouseState = 'on click'\<close> and clickable \<open>['red', 'blue']\<close> the fragment holds, in this
  order, the state-changed guard, the new-click guard, the data-append lines and a
  correctness guard around the termination statement. The branch for \<open>'correct click'\<close>
  builds that text and does not write it: the fragment ends with the data-append lines and
  holds no termination statement.
\<close>

theorem writeFrameCode_correct_click_no_termination:
  "(case writeFrameCode example_host
           (example_component (PStr ''correct click'') (PStr ''on click'') (PList [''red'', ''blue'']) example_exp)
           empty_buff
    of Inl e \<Rightarrow> False
     | Inr (c, b) \<Rightarrow>
         written b =
          [(0, ''# *buttonbox* updates\<newline>''),
           (0, ''if tThisFlip >= 0.0:\<newline>''),
           (1, ''status = STARTED\<newline>''),
           (1, ''buttonbox.buttonboxClock.reset()\<newline>''),
           (1, ''prevButtonState = buttonbox.getKeys()  # if button is down already this ISN'T a new click\<newline>''),
           (0, ''if tThisFlip > 1.0:\<newline>''),
           (1, ''status = FINISHED\<newline>''),
           (0, ''if buttonbox.status == STARTED:  # only update if started and not finished!\<newline>''),
           (1, ''buttons = buttonbox.getKeys()\<newline>''),
           (1, ''if buttons != prevButtonState:  # button state changed?\<newline>''),
           (2, ''prevButtonState = buttons\<newline>''),
           (2, ''if buttons > 0:  # state changed to a new click\<newline>''),
           (2, ''lastResp = buttons[-1]\<newline>''),
           (3, ''x, y = buttonbox.getPos()\<newline>''),
           (3, ''buttonbox.x.append(x)\<newline>''),
           (3, ''buttonbox.y.append(y)\<newline>''),
           (3, ''buttons = buttonbox.getPressed()\<newline>''),
           (3, ''buttonbox.leftButton.append(buttons[0])\<newline>''),
           (3, ''buttonbox.midButton.append(buttons[1])\<newline>''),
           (3, ''buttonbox.rightButton.append(buttons[2])\<newline>''),
           (3, ''buttonbox.time.append(buttonbox.buttonboxClock.getTime())\<newline>'')]
         \<and> \<not> list_ex (\<lambda>w. is_termination (stmt w)) (written b))"
  unfolding writeFrameCode_def example_tests example_after_tests_def
  by (simp add: writeFrameCode_updates_def buff_defs val_defs char_defs example_defs saveOnClick_def
        buttonPressCode_def mouseCode_def stmt_def is_termination_def)

section \<open>FrameUpdate: ending the routine on any click\<close>

text \<open>
  What the second part of \<open>writeFrameCode\<close> writes for \<open>forceEnd = 'any click'\<close>, for each
  value of \<open>saveMouseState\<close>; the indentation level is the one at entry.
\<close>

lemma updates_any_click:
  assumes "params self ''name'' = Some n" and "params self ''saveMouseState'' = Some sv"
    and "params self ''clickable'' = Some cl" and "clockStr self = Some clk"
    and "no_linebreak (str_Param H n)" and "no_linebreak clk"
    and "val sv = PStr s"
    and "s \<in> set [''never'', ''final'', ''every frame'', ''on click'', ''on valid click'']"
  shows "writeFrameCode_updates H self (PStr ''any click'') b =
           Inr (b\<lparr>written := written b
                  @ [(indentLevel b, ''if '' @ str_Param H n
                        @ ''.status == STARTED:  # only update if started and not finished!\<newline>'')]
                  @ (if s = ''every frame'' then dataWrites (indentLevel b + 1) (str_Param H n) clk else [])
                  @ pressWrites (indentLevel b + 1) (str_Param H n)
                  @ (if s = ''on click'' then dataWrites (indentLevel b + 3) (str_Param H n) clk
                     else if s = ''on valid click'' \<and> truthy (val cl)
                     then (indentLevel b + 3, ''if gotValidClick:\<newline>'')
                          # dataWrites (indentLevel b + 4) (str_Param H n) clk
                     else [])
                  @ (if s \<in> set [''never'', ''final'']
                     then [(indentLevel b + 3, ''continueRoutine = False  # end routine on response'')]
                     else [(indentLevel b + 3, ''\<newline>''),
                           (indentLevel b + 3, ''continueRoutine = False  # end routine on response\<newline>'')])\<rparr>)"
proof (cases b)
  case (fields L W)
  note defs = writeFrameCode_updates_def saveOnClick_def buttonPressCode_writes
          splitlines_mouseCode writeIndented_def writeIndentedLines_def setIndentLevel_def
          val_defs py_splitlines_def is_linebreak_def pressWrites_def dataWrites_def Let_def
  from assms(8) have "s = ''never'' \<or> s = ''final'' \<or> s = ''every frame''
    \<or> s = ''on click'' \<or> s = ''on valid click''" by simp
  then consider "s = ''never''" | "s = ''final''" | "s = ''every frame''"
    | "s = ''on click''" | "s = ''on valid click''" by blast
  then show ?thesis
  proof cases
    case 1
    then show ?thesis using assms(1-7) unfolding fields by (simp add: defs)
  next
    case 2
    then show ?thesis using assms(1-7) unfolding fields by (simp add: defs)
  next
    case 3
    then show ?thesis using assms(1-7) unfolding fields by (simp add: defs)
  next
    case 4
    then show ?thesis using assms(1-7) unfolding fields by (simp add: defs)
  next
    case 5
    then show ?thesis using assms(1-7) unfolding fields by (simp add: defs)
  qed
qed

text \<open>The block structure of those writes.\<close>

lemma guards_any_click:
  fixes tc :: bool and clk :: string
  assumes "is_identifier nm" and "0 \<le> L"
    and "s \<in> set [''never'', ''final'', ''every frame'', ''on click'', ''on valid click'']"
  defines "E \<equiv> [(L, ''if '' @ nm
                        @ ''.status == STARTED:  # only update if started and not finished!\<newline>'')]
                  @ (if s = ''every frame'' then dataWrites (L + 1) nm clk else [])
                  @ pressWrites (L + 1) nm
                  @ (if s = ''on click'' then dataWrites (L + 3) nm clk
                     else if s = ''on valid click'' \<and> tc
                     then (L + 3, ''if gotValidClick:\<newline>'')
                          # dataWrites (L + 4) nm clk
                     else [])
                  @ (if s \<in> set [''never'', ''final'']
                     then [(L + 3, ''continueRoutine = False  # end routine on response'')]
                     else [(L + 3, ''\<newline>''),
                           (L + 3, ''continueRoutine = False  # end routine on response\<newline>'')])"
  shows "map fst (filter (\<lambda>g. is_termination (snd g)) (guards_of [] E))
           = [ [''if '' @ nm @ ''.status == STARTED:  # only update if started and not finished!\<newline>'',
               ''if buttons != prevButtonState:  # button state changed?\<newline>''] ]
         \<and> length (filter (\<lambda>g. is_state_guard (snd g)) (guards_of [] E)) = 1"
proof -
  note defs = E_def pressWrites_def dataWrites_def column_def stmt_def is_header_def
    is_termination_def is_state_guard_def Let_def
    is_identifier_takeWhile [OF assms(1)] not_prefix_name [OF assms(1)]
  from assms(3) have "s = ''never'' \<or> s = ''final'' \<or> s = ''every frame''
    \<or> s = ''on click'' \<or> s = ''on valid click''" by simp
  then show ?thesis
  proof (elim disjE)
    assume "s = ''never''"
    then show ?thesis using assms(2) by (simp add: defs)
  next
    assume "s = ''final''"
    then show ?thesis using assms(2) by (simp add: defs)
  next
    assume "s = ''every frame''"
    then show ?thesis using assms(2) by (simp add: defs)
  next
    assume "s = ''on click''"
    then show ?thesis using assms(2) by (simp add: defs)
  next
    assume v: "s = ''on valid click''"
    show ?thesis
    proof (cases tc)
      case True
      with v show ?thesis using assms(2) by (simp add: defs)
    next
      case False
      with v show ?thesis using assms(2) by (simp add: defs)
    qed
  qed
qed

text \<open>
  Claim C4. Let the configuration have \<open>forceEndRoutineOnPress = 'any click'\<close>, any of the
  five values of \<open>saveMouseState\<close>, any \<open>clickable\<close>, a known time base and an identifier
  as name, and let the first part of \<open>writeFrameCode\<close> (heading, start and stop tests)
  succeed at a level that is not negative. Then \<open>writeFrameCode\<close> succeeds and restores the
  level; among the statements it writes after the tests exactly one is the termination
  statement, and the \<open>if\<close> headers enclosing it are the \<open>STARTED\<close> test and the
  button-state-changed guard and no other (so no validity or correctness test); exactly
  one statement is a button-state-changed guard; and with \<open>saveMouseState = 'on click'\<close>
  the writes are the \<open>STARTED\<close> test, the button-press code, the data-append lines and
  then the termination statement, in this order.
\<close>

theorem any_click_one_termination:
  assumes tests: "writeFrameCode_tests H self b = Inr (s1, f, b1)"
    and fe: "params self ''forceEndRoutineOnPress'' = Some p" "val p = PStr ''any click''"
    and sv: "params self ''saveMouseState'' = Some sv" "val sv = PStr s"
            "s \<in> set [''never'', ''final'', ''every frame'', ''on click'', ''on valid click'']"
    and cl: "params self ''clickable'' = Some cl"
    and tr: "params self ''timeRelativeTo'' = Some t" "val t = PStr tr"
            "py_lower tr \<in> set [''experiment'', ''routine'', ''buttonbox onset'']"
    and nm: "params self ''name'' = Some n" "is_identifier (str_Param H n)"
            "no_linebreak (py_str (val n))"
    and lvl: "0 \<le> indentLevel b1"
  shows "\<exists>b2. writeFrameCode H self b = Inr (s1, b2)
           \<and> indentLevel b2 = indentLevel b1
           \<and> map fst (filter (\<lambda>g. is_termination (snd g)) (guards_of [] (emitted b1 b2)))
               = [ [''if '' @ str_Param H n
                     @ ''.status == STARTED:  # only update if started and not finished!\<newline>'',
                   ''if buttons != prevButtonState:  # button state changed?\<newline>''] ]
           \<and> length (filter (\<lambda>g. is_state_guard (snd g)) (guards_of [] (emitted b1 b2))) = 1
           \<and> (s = ''on click'' \<longrightarrow>
                emitted b1 b2
                  = (indentLevel b1, ''if '' @ str_Param H n
                       @ ''.status == STARTED:  # only update if started and not finished!\<newline>'')
                    # pressWrites (indentLevel b1 + 1) (str_Param H n)
                    @ dataWrites (indentLevel b1 + 3) (str_Param H n)
                        (if py_lower tr = ''experiment'' then ''globalClock''
                         else py_str (val n) @ ''.buttonboxClock'')
                    @ [(indentLevel b1 + 3, ''\<newline>''),
                       (indentLevel b1 + 3, ''continueRoutine = False  # end routine on response\<newline>'')])"
proof -
  let ?clk = "if py_lower tr = ''experiment'' then ''globalClock''
              else py_str (val n) @ ''.buttonboxClock''"
  let ?nm = "str_Param H n"
  let ?L = "indentLevel b1"
  let ?E = "[(?L, ''if '' @ ?nm
                 @ ''.status == STARTED:  # only update if started and not finished!\<newline>'')]
            @ (if s = ''every frame'' then dataWrites (?L + 1) ?nm ?clk else [])
            @ pressWrites (?L + 1) ?nm
            @ (if s = ''on click'' then dataWrites (?L + 3) ?nm ?clk
               else if s = ''on valid click'' \<and> truthy (val cl)
               then (?L + 3, ''if gotValidClick:\<newline>'') # dataWrites (?L + 4) ?nm ?clk
               else [])
            @ (if s \<in> set [''never'', ''final'']
               then [(?L + 3, ''continueRoutine = False  # end routine on response'')]
               else [(?L + 3, ''\<newline>''),
                     (?L + 3, ''continueRoutine = False  # end routine on response\<newline>'')])"
  let ?b2 = "b1\<lparr>written := written b1 @ ?E\<rparr>"
  from tests_result [OF tests fe(1) tr nm(1)]
  have s1: "s1 = self\<lparr>clockStr := Some ?clk\<rparr>" and f: "f = PStr ''any click''"
    by (simp_all add: fe(2))
  have clk: "no_linebreak ?clk"
    using nm(3) by (simp add: no_linebreak_def is_linebreak_def)
  have upd: "writeFrameCode_updates H s1 (PStr ''any click'') b1 = Inr ?b2"
    by (rule updates_any_click [OF _ _ _ _ _ clk sv(2) sv(3), where cl = cl])
       (simp_all add: s1 nm(1) sv(1) cl is_identifier_no_linebreak [OF nm(2)])
  have wf: "writeFrameCode H self b = Inr (s1, ?b2)"
    by (simp add: writeFrameCode_def tests f upd)
  have em: "emitted b1 ?b2 = ?E"
    by (simp add: emitted_def)
  have G: "map fst (filter (\<lambda>g. is_termination (snd g)) (guards_of [] ?E))
             = [ [''if '' @ ?nm @ ''.status == STARTED:  # only update if started and not finished!\<newline>'',
                 ''if buttons != prevButtonState:  # button state changed?\<newline>''] ]
           \<and> length (filter (\<lambda>g. is_state_guard (snd g)) (guards_of [] ?E)) = 1"
    by (rule guards_any_click [OF nm(2) lvl sv(3)])
  have O: "s = ''on click'' \<longrightarrow>
             ?E = (?L, ''if '' @ ?nm
                       @ ''.status == STARTED:  # only update if started and not finished!\<newline>'')
                  # pressWrites (?L + 1) ?nm @ dataWrites (?L + 3) ?nm ?clk
                  @ [(?L + 3, ''\<newline>''),
                     (?L + 3, ''continueRoutine = False  # end routine on response\<newline>'')]"
    by simp
  show ?thesis
    apply (rule exI [of _ ?b2])
    apply (simp only: wf em)
    using G O apply simp
    done
qed

theorem any_click_one_termination_witness:
  "\<exists>b2. writeFrameCode example_host
            (example_component (PStr ''any click'') (PStr ''on click'') (PList [''red'', ''blue''])
               example_exp) empty_buff
          = Inr (example_component (PStr ''any click'') (PStr ''on click'') (PList [''red'', ''blue''])
                   example_exp\<lparr>clockStr := Some ''buttonbox.buttonboxClock''\<rparr>, b2)
        \<and> indentLevel b2 = 0
        \<and> map fst (filter (\<lambda>g. is_termination (snd g))
                      (guards_of [] (emitted example_after_tests b2)))
            = [ [''if buttonbox.status == STARTED:  # only update if started and not finished!\<newline>'',
                ''if buttons != prevButtonState:  # button state changed?\<newline>''] ]
        \<and> length (filter (\<lambda>g. is_state_guard (snd g))
                      (guards_of [] (emitted example_after_tests b2))) = 1
        \<and> emitted example_after_tests b2
            = (0, ''if buttonbox.status == STARTED:  # only update if started and not finished!\<newline>'')
              # pressWrites 1 ''buttonbox''
              @ dataWrites 3 ''buttonbox'' ''buttonbox.buttonboxClock''
              @ [(3, ''\<newline>''),
                 (3, ''continueRoutine = False  # end routine on response\<newline>'')]"
proof -
  have t: "writeFrameCode_tests example_host
             (example_component (PStr ''any click'') (PStr ''on click'') (PList [''red'', ''blue''])
                example_exp) empty_buff
           = Inr (example_component (PStr ''any click'') (PStr ''on click'') (PList [''red'', ''blue''])
                    example_exp\<lparr>clockStr := Some ''buttonbox.buttonboxClock''\<rparr>,
                  PStr ''any click'', example_after_tests)"
    by (rule example_tests)
  from any_click_one_termination
         [OF t, where p = "example_Param (PStr ''any click'')"
            and sv = "example_Param (PStr ''on click'')" and s = "''on click''"
            and cl = "example_Param (PList [''red'', ''blue''])"
            and t = "example_Param (PStr ''buttonbox onset'')" and tr = "''buttonbox onset''"
            and n = "example_Param (PStr ''buttonbox'')"]
  show ?thesis
    by (simp add: example_host_def example_component_def example_params_def example_Param_def
          example_after_tests_def is_identifier_def ident_char_def no_linebreak_def char_defs)
qed

section \<open>The constructor and the allowed values\<close>

text \<open>
  Claim C5. With a \<open>Param\<close> that checks its value against the allowed values it is given
  (as the spec has it), the constructor raises a configuration error when
  \<open>forceEndRoutineOnPress\<close> (after a boolean has become a choice) or \<open>timeRelativeTo\<close>
  is outside its list, and a component that was constructed holds both inside their lists:
  the generation phases, which run on a constructed component, read values from the lists.
\<close>

theorem init_rejects_out_of_domain:
  "(\<not> val_in (normalise_forceEnd forceEnd) [''never'', ''any click'', ''valid click'', ''correct click''] \<longrightarrow>
      ButtonboxComponent_init Param_validated base save forceEnd lights clickable timeRelativeTo
        = Inl (ConfigurationError (py_str (normalise_forceEnd forceEnd))))
   \<and> (val_in (normalise_forceEnd forceEnd) [''never'', ''any click'', ''valid click'', ''correct click''] \<longrightarrow>
      \<not> val_in timeRelativeTo [''buttonbox onset'', ''experiment'', ''routine''] \<longrightarrow>
      ButtonboxComponent_init Param_validated base save forceEnd lights clickable timeRelativeTo
        = Inl (ConfigurationError (py_str timeRelativeTo)))
   \<and> (ButtonboxComponent_init Param_validated base save forceEnd lights clickable timeRelativeTo = Inr c \<longrightarrow>
      (\<exists>p t. params c ''forceEndRoutineOnPress'' = Some p
           \<and> val_in (val p) [''never'', ''any click'', ''valid click'', ''correct click'']
           \<and> params c ''timeRelativeTo'' = Some t
           \<and> val_in (val t) [''buttonbox onset'', ''experiment'', ''routine'']))"
  by (auto simp add: ButtonboxComponent_init_def Param_validated_def Let_def split: if_splits)

theorem init_rejects_out_of_domain_witness:
  "ButtonboxComponent_init Param_validated example_base (PStr ''on click'') (PStr ''sometimes'')
     (PBool True) (PList [''red'']) (PStr ''routine'')
     = Inl (ConfigurationError ''sometimes'')
   \<and> ButtonboxComponent_init Param_validated example_base (PStr ''on click'') (PBool True)
     (PBool True) (PList [''red'']) (PStr ''trial'')
     = Inl (ConfigurationError ''trial'')
   \<and> (\<exists>c p t. ButtonboxComponent_init Param_validated example_base (PStr ''on click'') (PBool True)
                (PBool True) (PList [''red'']) (PStr ''routine'') = Inr c
        \<and> params c ''forceEndRoutineOnPress'' = Some p \<and> val p = PStr ''any click''
        \<and> params c ''timeRelativeTo'' = Some t \<and> val t = PStr ''routine'')"
proof -
  have 1: "ButtonboxComponent_init Param_validated example_base (PStr ''on click'') (PStr ''sometimes'')
             (PBool True) (PList [''red'']) (PStr ''routine'')
           = Inl (ConfigurationError ''sometimes'')"
    using init_rejects_out_of_domain
            [of "PStr ''sometimes''" example_base "PStr ''on click''" "PBool True" "PList [''red'']"
                "PStr ''routine''"]
    by (simp add: normalise_forceEnd_def val_in_def)
  have 2: "ButtonboxComponent_init Param_validated example_base (PStr ''on click'') (PBool True)
             (PBool True) (PList [''red'']) (PStr ''trial'')
           = Inl (ConfigurationError ''trial'')"
    using init_rejects_out_of_domain
            [of "PBool True" example_base "PStr ''on click''" "PBool True" "PList [''red'']"
                "PStr ''trial''"]
    by (simp add: normalise_forceEnd_def val_in_def)
  have 3: "\<exists>c p t. ButtonboxComponent_init Param_validated example_base (PStr ''on click'') (PBool True)
                (PBool True) (PList [''red'']) (PStr ''routine'') = Inr c
        \<and> params c ''forceEndRoutineOnPress'' = Some p \<and> val p = PStr ''any click''
        \<and> params c ''timeRelativeTo'' = Some t \<and> val t = PStr ''routine''"
    by (simp add: ButtonboxComponent_init_def Param_validated_def normalise_forceEnd_def
          val_in_def Let_def)
  from 1 2 3 show ?thesis by blast
qed

section \<open>Determinism of the generation phases\<close>

text \<open>
  Claim C6. Each phase is a function of the configuration, the experiment around the
  component and the buffer it starts from: two objects with the same configuration, the
  same experiment and the same list of clickable parameters, whose time base is a known
  one, give the same result from the same buffer in every phase, whatever else the objects
  hold (such as a \<open>clockStr\<close> left by an earlier run). Equal buffers have equal text.
\<close>

theorem generation_deterministic:
  assumes "params c1 = params c2" and "exp c1 = exp c2"
    and "clickableParamsList c1 = clickableParamsList c2"
    and "params c1 ''timeRelativeTo'' = Some t" and "val t = PStr tr"
    and "py_lower tr \<in> set [''experiment'', ''routine'', ''buttonbox onset'']"
  shows "writeInitCode H c1 b = writeInitCode H c2 b
       \<and> writeInitCode_body H c1 b = writeInitCode_body H c2 b
       \<and> writeRoutineStartCode H c1 b = writeRoutineStartCode H c2 b
       \<and> map_sum id snd (writeFrameCode H c1 b) = map_sum id snd (writeFrameCode H c2 b)
       \<and> map_sum id (getvalue \<circ> snd) (writeFrameCode H c1 b)
         = map_sum id (getvalue \<circ> snd) (writeFrameCode H c2 b)
       \<and> writeRoutineEndCode H c1 b = writeRoutineEndCode H c2 b"
proof -
  have init: "writeInitCode H c1 b = writeInitCode H c2 b"
    by (simp add: writeInitCode_def)
  have frame: "map_sum id snd (writeFrameCode H c1 b) = map_sum id snd (writeFrameCode H c2 b)"
    by (rule det_frame [OF assms(1,4,5,6)])
  have "map_sum id getvalue (map_sum id snd (writeFrameCode H c1 b))
      = map_sum id getvalue (map_sum id snd (writeFrameCode H c2 b))"
    by (simp only: frame)
  then have gv: "map_sum id (getvalue \<circ> snd) (writeFrameCode H c1 b)
                 = map_sum id (getvalue \<circ> snd) (writeFrameCode H c2 b)"
    by (simp add: sum.map_comp)
  from init det_body [OF assms(1)] det_start [OF assms(1)] frame gv det_end [OF assms(1,2,3)]
  show ?thesis by blast
qed

theorem generation_deterministic_witness:
  "writeRoutineStartCode example_host
     (example_component (PStr ''any click'') (PStr ''on click'') (PList [''red'']) example_exp)
     empty_buff
   = writeRoutineStartCode example_host
     (example_component (PStr ''any click'') (PStr ''on click'') (PList [''red'']) example_exp
        \<lparr>clockStr := Some ''staleClock''\<rparr>)
     empty_buff
   \<and> map_sum id snd (writeFrameCode example_host
     (example_component (PStr ''any click'') (PStr ''on click'') (PList [''red'']) example_exp)
     empty_buff)
   = map_sum id snd (writeFrameCode example_host
     (example_component (PStr ''any click'') (PStr ''on click'') (PList [''red'']) example_exp
        \<lparr>clockStr := Some ''staleClock''\<rparr>)
     empty_buff)
   \<and> writeRoutineEndCode example_host
     (example_component (PStr ''any click'') (PStr ''on click'') (PList [''red'']) example_exp)
     empty_buff
   = writeRoutineEndCode example_host
     (example_component (PStr ''any click'') (PStr ''on click'') (PList [''red'']) example_exp
        \<lparr>clockStr := Some ''staleClock''\<rparr>)
     empty_buff"
proof -
  have p: "params (example_component (PStr ''any click'') (PStr ''on click'') (PList [''red''])
                     example_exp) ''timeRelativeTo''
           = Some (example_Param (PStr ''buttonbox onset''))"
    by (simp add: example_component_def example_params_def)
  have v: "val (example_Param (PStr ''buttonbox onset'')) = PStr ''buttonbox onset''"
    by (simp add: example_Param_def)
  have l: "py_lower ''buttonbox onset'' \<in> set [''experiment'', ''routine'', ''buttonbox onset'']"
    by (simp add: char_defs)
  from generation_deterministic
         [of "example_component (PStr ''any click'') (PStr ''on click'') (PList [''red'']) example_exp"
             "example_component (PStr ''any click'') (PStr ''on click'') (PList [''red'']) example_exp
                \<lparr>clockStr := Some ''staleClock''\<rparr>"
             "example_Param (PStr ''buttonbox onset'')" "''buttonbox onset''" example_host empty_buff,
          OF _ _ _ p v l]
  show ?thesis by simp
qed

section \<open>RoutineStart\<close>

text \<open>
  What \<open>writeRoutineStartCode\<close> writes, for a configuration whose \<open>timeRelativeTo\<close> is a
  string and whose name prints on one line: at the current level, the comment, the
  device-start call and the text \<open>(name)sResp = []\<close>, followed by the clock-reset line
  exactly when \<open>timeRelativeTo\<close> in lower case is \<open>'routine'\<close>; \<open>'buttonbox onset'\<close> and
  \<open>'experiment'\<close> give no clock-reset line.
\<close>

lemma writeRoutineStartCode_emits:
  assumes "params self ''timeRelativeTo'' = Some t" and "val t = PStr s"
    and "params self ''name'' = Some n" and "no_linebreak (str_Param H n)"
  shows "writeRoutineStartCode H self b =
           Inr (b\<lparr>written := written b
                  @ [(indentLevel b,
                      ''# starting the buttonbox and setup a python list for storing the button presses of ''
                      @ str_Param H n @ ''\<newline>''),
                     (indentLevel b, str_Param H n @ ''.start()\<newline>''),
                     (indentLevel b, ''(name)sResp = []\<newline>'')]
                  @ (if py_lower s = ''routine''
                     then [(indentLevel b, str_Param H n @ ''.buttonboxClock.reset()\<newline>'')]
                     else [])\<rparr>)
         \<and> (s \<in> {''buttonbox onset'', ''experiment''} \<longrightarrow> py_lower s \<noteq> ''routine'')"
  using assms
  by (auto simp add: writeRoutineStartCode_def buff_defs val_defs splitlines_from_nobreak is_linebreak_def Let_def py_lower_def py_lower_char_def)

text \<open>
  Claim C7 says that RoutineStart always writes a device-start call and an initializer of
  the results list, and a clock-reset line exactly for \<open>'routine'\<close>. The third line of the
  template has \<open>(name)s\<close> where the other lines have \<open>%(name)s\<close>, so the name is not filled
  in: what is written is the text \<open>(name)sResp = []\<close>, which is no Python statement and
  sets up no list for the component (here no \<open>buttonboxResp = []\<close>). The device-start call
  and the clock-reset line are written as the claim says.
\<close>

theorem writeRoutineStartCode_unformatted_initializer:
  "writeRoutineStartCode example_host
     (example_component (PStr ''any click'') (PStr ''on click'') (PList [''red'']) example_exp
        \<lparr>params := (example_params (PStr ''any click'') (PStr ''on click'') (PList [''red'']))
                      (''timeRelativeTo'' \<mapsto> example_Param (PStr ''Routine''))\<rparr>)
     empty_buff
   = Inr \<lparr>indentLevel = 0,
          written =
            [(0, ''# starting the buttonbox and setup a python list for storing the button presses of buttonbox\<newline>''),
             (0, ''buttonbox.start()\<newline>''),
             (0, ''(name)sResp = []\<newline>''),
             (0, ''buttonbox.buttonboxClock.reset()\<newline>'')]\<rparr>
   \<and> writeRoutineStartCode example_host
     (example_component (PStr ''any click'') (PStr ''on click'') (PList [''red'']) example_exp)
     empty_buff
   = Inr \<lparr>indentLevel = 0,
          written =
            [(0, ''# starting the buttonbox and setup a python list for storing the button presses of buttonbox\<newline>''),
             (0, ''buttonbox.start()\<newline>''),
             (0, ''(name)sResp = []\<newline>'')]\<rparr>"
  using writeRoutineStartCode_emits
          [of "example_component (PStr ''any click'') (PStr ''on click'') (PList [''red'']) example_exp
                 \<lparr>params := (example_params (PStr ''any click'') (PStr ''on click'') (PList [''red'']))
                               (''timeRelativeTo'' \<mapsto> example_Param (PStr ''Routine''))\<rparr>"
              "example_Param (PStr ''Routine'')" "''Routine''" "example_Param (PStr ''buttonbox'')"
              example_host empty_buff]
        writeRoutineStartCode_emits
          [of "example_component (PStr ''any click'') (PStr ''on click'') (PList [''red'']) example_exp"
              "example_Param (PStr ''buttonbox onset'')" "''buttonbox onset''"
              "example_Param (PStr ''buttonbox'')" example_host empty_buff]
  by (simp add: example_host_def example_component_def example_params_def example_Param_def
        empty_buff_def no_linebreak_def is_linebreak_def py_lower_Routine py_lower_onset)

section \<open>The keys of the configuration\<close>

text \<open>
  The constructor adds four keys to those the base constructor left, and no other.
\<close>

lemma init_params_keys:
  assumes "ButtonboxComponent_init mkParam base save forceEnd lights clickable timeRelativeTo = Inr c"
  shows "dom (params c) = dom (params base)
           \<union> {''forceEndRoutineOnPress'', ''lights'', ''timeRelativeTo'', ''clickable''}"
  using assms
  by (auto simp add: ButtonboxComponent_init_def Let_def bindE_eq_Inr)

text \<open>
  Claim C8 says that every key \<open>writeFrameCode\<close> looks up is in the configuration of a
  constructed component. The constructor takes \<open>save\<close> and stores no \<open>saveMouseState\<close>, and
  it stores no \<open>newClicksOnly\<close>: after a base constructor that files only the arguments it
  is called with, both keys are missing and \<open>writeFrameCode\<close> raises \<open>KeyError\<close>, for
  \<open>newClicksOnly\<close> when the start test has indented and for \<open>saveMouseState\<close> when it has
  not.
\<close>

theorem init_lacks_saveMouseState:
  "(case ButtonboxComponent_init Param_stored example_base (PStr ''on click'') (PStr ''any click'')
           (PBool True) (PList [''red'', ''green'', ''yellow'', ''blue'', ''white''])
           (PStr ''buttonbox onset'')
    of Inl e \<Rightarrow> False
     | Inr c \<Rightarrow>
         params c ''saveMouseState'' = None \<and> params c ''newClicksOnly'' = None
         \<and> writeFrameCode example_host c empty_buff = Inl (KeyError ''newClicksOnly'')
         \<and> writeFrameCode (example_host\<lparr>writeStartTestCode := (\<lambda>ps b. Inr (0, b))\<rparr>) c empty_buff
             = Inl (KeyError ''saveMouseState''))"
  by (simp add: ButtonboxComponent_init_def Param_stored_def normalise_forceEnd_def example_base_def
        writeFrameCode_def writeFrameCode_tests_def writeFrameCode_updates_def
        buff_defs val_defs char_defs example_defs)

section \<open>The constructor and a boolean forceEndRoutineOnPress\<close>

text \<open>
  Claim C9. The parameter the constructor stores under \<open>forceEndRoutineOnPress\<close> is the one
  \<open>Param\<close> makes from the normalised argument, with the list of the four choices; a
  \<open>Param\<close> that stores its value holds the normalised argument. \<open>True\<close> is normalised to
  \<open>'any click'\<close>, \<open>False\<close> to \<open>'never'\<close>, an argument that is no boolean to itself, and the
  normalised argument is never a boolean.
\<close>

theorem init_normalises_forceEnd:
  assumes "ButtonboxComponent_init mkParam base save forceEnd lights clickable timeRelativeTo = Inr c"
  shows "(\<exists>p. params c ''forceEndRoutineOnPress'' = Some p
            \<and> mkParam (normalise_forceEnd forceEnd) ''str''
                 (Some [''never'', ''any click'', ''valid click'', ''correct click'']) = Inr p
            \<and> (mkParam = Param_stored \<longrightarrow> val p = normalise_forceEnd forceEnd))
       \<and> (forceEnd = PBool True \<longrightarrow> normalise_forceEnd forceEnd = PStr ''any click'')
       \<and> (forceEnd = PBool False \<longrightarrow> normalise_forceEnd forceEnd = PStr ''never'')
       \<and> ((\<forall>v. forceEnd \<noteq> PBool v) \<longrightarrow> normalise_forceEnd forceEnd = forceEnd)
       \<and> (\<forall>v. normalise_forceEnd forceEnd \<noteq> PBool v)"
  using assms
  by (auto simp add: ButtonboxComponent_init_def Let_def bindE_eq_Inr normalise_forceEnd_def
        Param_stored_def)

theorem init_normalises_forceEnd_witness:
  "\<exists>c p. ButtonboxComponent_init Param_stored example_base (PStr ''on click'') (PBool True)
             (PBool True) (PList [''red'']) (PStr ''routine'') = Inr c
        \<and> params c ''forceEndRoutineOnPress'' = Some p \<and> val p = PStr ''any click''"
proof -
  obtain c where c: "ButtonboxComponent_init Param_stored example_base (PStr ''on click'') (PBool True)
             (PBool True) (PList [''red'']) (PStr ''routine'') = Inr c"
    by (simp add: ButtonboxComponent_init_def Param_stored_def Let_def)
  from init_normalises_forceEnd [OF c] c show ?thesis
    by (auto simp add: normalise_forceEnd_def)
qed

section \<open>Properties of getFromNames\<close>






end
